theory Spec2Isabelle
  imports Main "HOL-Library.Sublist"
begin

section \<open>Python values read from a device file\<close>

text \<open>
  A device file is parsed by \<open>json.load\<close>; the entities keep the parsed value and look
  into it with \<open>in\<close>, \<open>[]\<close>, \<open>.get\<close>, \<open>.keys()\<close>, \<open>len\<close>, iteration and truth tests.
  A parsed object is a Python dict: an association list in insertion order whose keys are
  distinct. Lookup takes the first entry of a key, so on the lists that are dicts it is the
  dict lookup. JSON numbers are the integer ones; a float never occurs as a key and the
  entities do no arithmetic on stored values.
\<close>

datatype json =
    JNull
  | JBool bool
  | JInt int
  | JStr string
  | JArr "json list"
  | JObj "(string \<times> json) list"

datatype py_error = KeyError | IndexError | TypeError | AttributeError

text \<open>The truth value Python gives a parsed value in \<open>if code:\<close>.\<close>

fun py_truthy :: "json \<Rightarrow> bool" where
  "py_truthy JNull = False"
| "py_truthy (JBool b) = b"
| "py_truthy (JInt i) = (i \<noteq> 0)"
| "py_truthy (JStr s) = (s \<noteq> [])"
| "py_truthy (JArr xs) = (xs \<noteq> [])"
| "py_truthy (JObj kvs) = (kvs \<noteq> [])"

text \<open>
  \<open>key in container\<close>, for a key that is a string or \<open>None\<close>: key membership in a dict,
  element membership in a list, substring test in a string (\<open>None in "abc"\<close> raises
  TypeError), TypeError on every other value.
\<close>

fun py_in :: "string option \<Rightarrow> json \<Rightarrow> py_error + bool" where
  "py_in k (JObj kvs) = Inr (case k of None \<Rightarrow> False | Some s \<Rightarrow> map_of kvs s \<noteq> None)"
| "py_in k (JArr xs) = Inr ((case k of None \<Rightarrow> JNull | Some s \<Rightarrow> JStr s) \<in> set xs)"
| "py_in k (JStr t) = (case k of None \<Rightarrow> Inl TypeError | Some s \<Rightarrow> Inr (sublist s t))"
| "py_in k JNull = Inl TypeError"
| "py_in k (JBool b) = Inl TypeError"
| "py_in k (JInt i) = Inl TypeError"

text \<open>
  \<open>container[key]\<close>, for a key that is a string or \<open>None\<close>: KeyError on a dict without
  the key, TypeError on a list or a string (their indices are integers) and on the values
  that are not subscriptable.
\<close>

fun py_getitem :: "json \<Rightarrow> string option \<Rightarrow> py_error + json" where
  "py_getitem (JObj kvs) k =
     (case k of
        None \<Rightarrow> Inl KeyError
      | Some s \<Rightarrow> (case map_of kvs s of None \<Rightarrow> Inl KeyError | Some v \<Rightarrow> Inr v))"
| "py_getitem (JArr xs) k = Inl TypeError"
| "py_getitem (JStr t) k = Inl TypeError"
| "py_getitem JNull k = Inl TypeError"
| "py_getitem (JBool b) k = Inl TypeError"
| "py_getitem (JInt i) k = Inl TypeError"

text \<open>\<open>container.get(key)\<close>: \<open>None\<close> for a missing key, AttributeError off a dict.\<close>

fun py_get :: "json \<Rightarrow> string \<Rightarrow> py_error + json" where
  "py_get (JObj kvs) k = Inr (case map_of kvs k of None \<Rightarrow> JNull | Some v \<Rightarrow> v)"
| "py_get (JArr xs) k = Inl AttributeError"
| "py_get (JStr t) k = Inl AttributeError"
| "py_get JNull k = Inl AttributeError"
| "py_get (JBool b) k = Inl AttributeError"
| "py_get (JInt i) k = Inl AttributeError"

text \<open>\<open>list(container.keys())\<close>: the keys in insertion order.\<close>

fun py_keys :: "json \<Rightarrow> py_error + string list" where
  "py_keys (JObj kvs) = Inr (map fst kvs)"
| "py_keys (JArr xs) = Inl AttributeError"
| "py_keys (JStr t) = Inl AttributeError"
| "py_keys JNull = Inl AttributeError"
| "py_keys (JBool b) = Inl AttributeError"
| "py_keys (JInt i) = Inl AttributeError"

fun py_len :: "json \<Rightarrow> py_error + nat" where
  "py_len (JStr t) = Inr (length t)"
| "py_len (JArr xs) = Inr (length xs)"
| "py_len (JObj kvs) = Inr (length kvs)"
| "py_len JNull = Inl TypeError"
| "py_len (JBool b) = Inl TypeError"
| "py_len (JInt i) = Inl TypeError"

text \<open>
  The elements \<open>for c in code\<close> visits: the elements of a list, the keys of a dict, the
  one-character strings of a string; the other values are not iterable.
\<close>

fun py_iter :: "json \<Rightarrow> py_error + json list" where
  "py_iter (JArr xs) = Inr xs"
| "py_iter (JObj kvs) = Inr (map (\<lambda>kv. JStr (fst kv)) kvs)"
| "py_iter (JStr t) = Inr (map (\<lambda>c. JStr [c]) t)"
| "py_iter JNull = Inl TypeError"
| "py_iter (JBool b) = Inl TypeError"
| "py_iter (JInt i) = Inl TypeError"

subsection \<open>Decimal text of an integer\<close>

definition digit_char :: "nat \<Rightarrow> char" where
  "digit_char d =
     (if d = 0 then CHR ''0'' else if d = 1 then CHR ''1'' else if d = 2 then CHR ''2''
      else if d = 3 then CHR ''3'' else if d = 4 then CHR ''4'' else if d = 5 then CHR ''5''
      else if d = 6 then CHR ''6'' else if d = 7 then CHR ''7'' else if d = 8 then CHR ''8''
      else CHR ''9'')"

fun str_nat :: "nat \<Rightarrow> string" where
  "str_nat n = (if n < 10 then [digit_char n] else str_nat (n div 10) @ [digit_char (n mod 10)])"

text \<open>\<open>str(i)\<close> for a Python int.\<close>

definition py_str :: "int \<Rightarrow> string" where
  "py_str i = (if i < 0 then CHR ''-'' # str_nat (nat (- i)) else str_nat (nat i))"

text \<open>An optional string inside an f-string: \<open>None\<close> prints as \<open>None\<close>.\<close>

definition fmt :: "string option \<Rightarrow> string" where
  "fmt k = (case k of None \<Rightarrow> ''None'' | Some s \<Rightarrow> s)"

text \<open>A value in single quotes inside a message.\<close>

definition quoted :: "string \<Rightarrow> string" where
  "quoted s = [CHR 0x27] @ s @ [CHR 0x27]"

section \<open>What an entity does: log records, the outbound call, state publication\<close>

datatype log_level = DEBUG | INFO | WARNING | ERROR

datatype event =
    Log log_level string
  | ServiceCall string string "string option" "json list"
  | WriteHAState

text \<open>
  A run of a method is the list of its events in order, and the exception it ended with,
  if any. \<open>ServiceCall domain service entity_id command\<close> is
  \<open>hass.services.async_call(domain, service, {"entity_id": .., "command": ..})\<close>; the
  call belongs to the host and is recorded, not interpreted.
\<close>

type_synonym run = "event list \<times> py_error option"

definition sends :: "event list \<Rightarrow> event list" where
  "sends evs = filter (\<lambda>e. case e of ServiceCall d sv c p \<Rightarrow> True | _ \<Rightarrow> False) evs"

section \<open>The transmitters\<close>

text \<open>
  The loop of \<open>_send_command\<close> (climate.py) and of \<open>_send_raw_code\<close> (media_player.py):
  a string that does not start with \<open>b64:\<close> gets the prefix, anything else is appended
  as it is.
\<close>

definition final_commands :: "json list \<Rightarrow> json list" where
  "final_commands code =
     map (\<lambda>c. case c of
            JStr s \<Rightarrow> if \<not> prefix ''b64:'' s then JStr (''b64:'' @ s) else c
          | _ \<Rightarrow> c) code"

text \<open>\<open>if isinstance(code, str): code = [code]\<close>, then the elements the loop visits.\<close>

definition code_list :: "json \<Rightarrow> py_error + json list" where
  "code_list code = (case code of JStr s \<Rightarrow> Inr [code] | _ \<Rightarrow> py_iter code)"

section \<open>The climate entity\<close>

datatype HVACMode = OFF | HEAT | COOL | HEAT_COOL | AUTO | DRY | FAN_ONLY

definition HVAC_MODES_MAP :: "(string \<times> HVACMode) list" where
  "HVAC_MODES_MAP =
     [(''off'', OFF), (''cool'', COOL), (''heat'', HEAT), (''auto'', AUTO), (''dry'', DRY),
      (''fan'', FAN_ONLY), (''fan_only'', FAN_ONLY)]"

text \<open>
  \<open>{v: k for k, v in HVAC_MODES_MAP.items()}\<close>: a later item overwrites an earlier one
  with the same value, so the lookup reads the items from the last.
\<close>

definition HVAC_MODES_INV_MAP :: "HVACMode \<Rightarrow> string option" where
  "HVAC_MODES_INV_MAP = map_of (rev (map (\<lambda>kv. (snd kv, fst kv)) HVAC_MODES_MAP))"

text \<open>
  The fields of the entity that \<open>_async_send_ir\<close> and \<open>_send_command\<close> read. The
  constructor calls \<open>device_data.get\<close>, so an entity exists only for a device file that
  is a dict. The target temperature is an integer, on which \<open>int()\<close> is the identity, so
  \<open>str(int(self._attr_target_temperature))\<close> is its decimal text.
\<close>

record EasyIRClimate =
  device_data :: "(string \<times> json) list"
  controller :: "string option"
  attr_hvac_mode :: HVACMode
  attr_fan_mode :: string
  attr_target_temperature :: int

text \<open>The messages of climate.py, by the line that logs them.\<close>

definition msg_found_off :: "nat \<Rightarrow> string" where
  "msg_found_off n = ''EasyIR: Found OFF command. Length: '' @ str_nat n"

definition msg_off_missing :: string where
  "msg_off_missing = ''EasyIR: '' @ quoted ''off'' @ '' command not found in JSON!''"

definition msg_mode_missing :: "string option \<Rightarrow> string" where
  "msg_mode_missing mode_key = ''EasyIR: Mode '' @ quoted (fmt mode_key) @ '' missing from JSON.''"

definition msg_fan_missing :: "string \<Rightarrow> string \<Rightarrow> string" where
  "msg_fan_missing fan_key f =
     ''EasyIR: Fan '' @ quoted fan_key @ '' missing. Retrying with '' @ quoted f"

definition msg_temp_missing :: "string \<Rightarrow> string" where
  "msg_temp_missing temp_key = ''EasyIR: Temp '' @ quoted temp_key @ '' missing from JSON.''"

definition msg_sending :: "nat \<Rightarrow> string option \<Rightarrow> string" where
  "msg_sending n c = ''EasyIR: Sending '' @ str_nat n @ '' command(s) to '' @ fmt c"

text \<open>\<open>EasyIRClimate._send_command\<close>.\<close>

definition EasyIRClimate_send_command :: "EasyIRClimate \<Rightarrow> json \<Rightarrow> run" where
  "EasyIRClimate_send_command self code =
     (case code_list code of
        Inl e \<Rightarrow> ([], Some e)
      | Inr cs \<Rightarrow>
          ([Log INFO (msg_sending (length (final_commands cs)) (controller self)),
            ServiceCall ''remote'' ''send_command'' (controller self) (final_commands cs)],
           None))"

text \<open>\<open>self._device_data.get("commands", {})\<close>.\<close>

definition climate_commands :: "EasyIRClimate \<Rightarrow> json" where
  "climate_commands self =
     (case map_of (device_data self) ''commands'' of None \<Rightarrow> JObj [] | Some c \<Rightarrow> c)"

text \<open>
  The fallback of a missing fan key: \<open>available_fans[0]\<close> is read inside the warning's
  f-string, so on an empty list IndexError is raised before anything is logged.
\<close>

definition first_fan :: "string \<Rightarrow> json \<Rightarrow> py_error + (event list \<times> string)" where
  "first_fan fan_key fans =
     (case py_keys fans of
        Inl e \<Rightarrow> Inl e
      | Inr available_fans \<Rightarrow>
          (case available_fans of
             [] \<Rightarrow> Inl IndexError
           | f # _ \<Rightarrow>
               Inr ([Log WARNING (msg_fan_missing fan_key f)], f)))"

text \<open>
  Steps 2 and 3 of \<open>EasyIRClimate._async_send_ir\<close>, up to \<open>code = commands[..][..][..]\<close>,
  in three stages from the innermost. Each stage gives the events logged, and either
  the exception raised, or \<open>None\<close> for an early return, or the code found.
  \<open>commands[mode_key]\<close> and \<open>commands[mode_key][fan_key]\<close> are written several times
  in the source and evaluated once here.
\<close>

text \<open>The temperature level: \<open>if temp_key not in ..: return\<close> and the final subscript.\<close>

definition lookup_temp ::
  "event list \<Rightarrow> json \<Rightarrow> string \<Rightarrow> event list \<times> (py_error + json option)" where
  "lookup_temp warned temps temp_key =
     (case py_in (Some temp_key) temps of
        Inl e \<Rightarrow> (warned, Inl e)
      | Inr False \<Rightarrow> (warned @ [Log ERROR (msg_temp_missing temp_key)], Inr None)
      | Inr True \<Rightarrow>
          (case py_getitem temps (Some temp_key) of
             Inl e \<Rightarrow> (warned, Inl e)
           | Inr code \<Rightarrow> (warned, Inr (Some code))))"

text \<open>The fan level: the fallback when the fan key is missing, then the subscript.\<close>

definition lookup_fan ::
  "json \<Rightarrow> string \<Rightarrow> string \<Rightarrow> event list \<times> (py_error + json option)" where
  "lookup_fan fans fan_key temp_key =
     (case py_in (Some fan_key) fans of
        Inl e \<Rightarrow> ([], Inl e)
      | Inr has_fan \<Rightarrow>
          (case (if has_fan then Inr ([], fan_key) else first_fan fan_key fans) of
             Inl e \<Rightarrow> ([], Inl e)
           | Inr (warned, fan_key') \<Rightarrow>
               (case py_getitem fans (Some fan_key') of
                  Inl e \<Rightarrow> (warned, Inl e)
                | Inr temps \<Rightarrow> lookup_temp warned temps temp_key)))"

text \<open>The keys, and the mode level: \<open>if mode_key not in commands: return\<close>.\<close>

definition lookup_code :: "EasyIRClimate \<Rightarrow> event list \<times> (py_error + json option)" where
  "lookup_code self =
     (let mode_key = HVAC_MODES_INV_MAP (attr_hvac_mode self);
          fan_key = attr_fan_mode self;
          temp_key = py_str (attr_target_temperature self);
          commands = climate_commands self
      in case py_in mode_key commands of
           Inl e \<Rightarrow> ([], Inl e)
         | Inr False \<Rightarrow> ([Log ERROR (msg_mode_missing mode_key)], Inr None)
         | Inr True \<Rightarrow>
            (case py_getitem commands mode_key of
               Inl e \<Rightarrow> ([], Inl e)
             | Inr fans \<Rightarrow> lookup_fan fans fan_key temp_key))"

text \<open>\<open>EasyIRClimate._async_send_ir\<close>.\<close>

definition EasyIRClimate_async_send_ir :: "EasyIRClimate \<Rightarrow> run" where
  "EasyIRClimate_async_send_ir self =
     (if attr_hvac_mode self = OFF then
        (case map_of (device_data self) ''commands'' of
           None \<Rightarrow> ([], Some KeyError)
         | Some commands \<Rightarrow>
            (case py_get commands ''off'' of
               Inl e \<Rightarrow> ([], Some e)
             | Inr command \<Rightarrow>
                 if py_truthy command then
                   (case py_len command of
                      Inl e \<Rightarrow> ([], Some e)
                    | Inr n \<Rightarrow>
                        (case EasyIRClimate_send_command self command of
                           (evs, r) \<Rightarrow>
                             (Log DEBUG (msg_found_off n) # evs, r)))
                 else
                   ([Log ERROR msg_off_missing], None)))
      else
        (case lookup_code self of
           (evs, Inl e) \<Rightarrow> (evs, Some e)
         | (evs, Inr None) \<Rightarrow> (evs, None)
         | (evs, Inr (Some code)) \<Rightarrow>
             if py_truthy code then
               (case EasyIRClimate_send_command self code of (evs', r) \<Rightarrow> (evs @ evs', r))
             else (evs, None)))"

text \<open>
  The three setters. Each one stores the requested value, sends, and publishes the state
  when the send returned; an exception of the send leaves the method before the
  publication, with the field already stored.
\<close>

type_synonym 'st method_run = "'st \<times> event list \<times> py_error option"

definition send_and_publish :: "EasyIRClimate \<Rightarrow> EasyIRClimate method_run" where
  "send_and_publish self =
     (case EasyIRClimate_async_send_ir self of
        (evs, Some e) \<Rightarrow> (self, evs, Some e)
      | (evs, None) \<Rightarrow> (self, evs @ [WriteHAState], None))"

definition async_set_hvac_mode :: "HVACMode \<Rightarrow> EasyIRClimate \<Rightarrow> EasyIRClimate method_run" where
  "async_set_hvac_mode hvac_mode self = send_and_publish (self\<lparr>attr_hvac_mode := hvac_mode\<rparr>)"

text \<open>\<open>kwargs.get(ATTR_TEMPERATURE)\<close> is the optional argument.\<close>

definition async_set_temperature :: "int option \<Rightarrow> EasyIRClimate \<Rightarrow> EasyIRClimate method_run" where
  "async_set_temperature temperature self =
     (case temperature of
        None \<Rightarrow> (self, [], None)
      | Some temp \<Rightarrow> send_and_publish (self\<lparr>attr_target_temperature := temp\<rparr>))"

definition async_set_fan_mode :: "string \<Rightarrow> EasyIRClimate \<Rightarrow> EasyIRClimate method_run" where
  "async_set_fan_mode fan_mode self = send_and_publish (self\<lparr>attr_fan_mode := fan_mode\<rparr>)"

section \<open>The media player entity\<close>

datatype media_state = STATE_OFF | STATE_ON

record EasyIRMediaPlayer =
  mp_device_data :: "(string \<times> json) list"
  mp_controller :: "string option"
  attr_state :: media_state
  attr_source :: "string option"

text \<open>\<open>EasyIRMediaPlayer._send_raw_code\<close>.\<close>

definition send_raw_code :: "EasyIRMediaPlayer \<Rightarrow> json \<Rightarrow> run" where
  "send_raw_code self code =
     (case code_list code of
        Inl e \<Rightarrow> ([], Some e)
      | Inr cs \<Rightarrow>
          ([ServiceCall ''remote'' ''send_command'' (mp_controller self) (final_commands cs)],
           None))"

definition msg_command_missing :: "string \<Rightarrow> string" where
  "msg_command_missing command_key =
     ''EasyIR: Command '' @ quoted command_key @ '' not found in device JSON.''"

text \<open>\<open>self._device_data.get("commands", {})\<close> and \<open>.get(command_key)\<close> on it.\<close>

definition media_commands :: "EasyIRMediaPlayer \<Rightarrow> json" where
  "media_commands self =
     (case map_of (mp_device_data self) ''commands'' of None \<Rightarrow> JObj [] | Some c \<Rightarrow> c)"

definition commands_get :: "EasyIRMediaPlayer \<Rightarrow> string \<Rightarrow> py_error + json" where
  "commands_get self command_key = py_get (media_commands self) command_key"

text \<open>\<open>EasyIRMediaPlayer._send_command\<close>.\<close>

definition EasyIRMediaPlayer_send_command :: "EasyIRMediaPlayer \<Rightarrow> string \<Rightarrow> run" where
  "EasyIRMediaPlayer_send_command self command_key =
     (case commands_get self command_key of
        Inl e \<Rightarrow> ([], Some e)
      | Inr code \<Rightarrow>
         (case (if \<not> py_truthy code \<and> command_key = ''on''
                then commands_get self ''power'' else Inr code) of
            Inl e \<Rightarrow> ([], Some e)
          | Inr code' \<Rightarrow>
              if py_truthy code' then send_raw_code self code'
              else
                ([Log WARNING (msg_command_missing command_key)], None)))"

text \<open>
  \<open>async_turn_on\<close> and \<open>async_turn_off\<close>: send first, then store the state and publish
  it; an exception of the send leaves the method before the state is stored.
\<close>

definition async_turn_on :: "EasyIRMediaPlayer \<Rightarrow> EasyIRMediaPlayer method_run" where
  "async_turn_on self =
     (case EasyIRMediaPlayer_send_command self ''on'' of
        (evs, Some e) \<Rightarrow> (self, evs, Some e)
      | (evs, None) \<Rightarrow> (self\<lparr>attr_state := STATE_ON\<rparr>, evs @ [WriteHAState], None))"

definition async_turn_off :: "EasyIRMediaPlayer \<Rightarrow> EasyIRMediaPlayer method_run" where
  "async_turn_off self =
     (case EasyIRMediaPlayer_send_command self ''off'' of
        (evs, Some e) \<Rightarrow> (self, evs, Some e)
      | (evs, None) \<Rightarrow> (self\<lparr>attr_state := STATE_OFF\<rparr>, evs @ [WriteHAState], None))"

section \<open>Facts about the stages\<close>

lemma sends_first_fan: "first_fan k fans = Inr (w, f) \<Longrightarrow> sends w = []"
  by (auto simp: first_fan_def sends_def split: sum.splits list.splits)

lemma sends_lookup_temp: "sends (fst (lookup_temp w temps k)) = sends w"
  by (simp add: lookup_temp_def sends_def split: sum.split bool.split)

lemma sends_lookup_fan: "sends (fst (lookup_fan fans f k)) = []"
proof (cases "py_in (Some f) fans")
  case (Inl e)
  then show ?thesis by (simp add: lookup_fan_def sends_def)
next
  case (Inr has_fan)
  show ?thesis
  proof (cases "if has_fan then Inr ([], f) else first_fan f fans")
    case (Inl e)
    with Inr show ?thesis by (simp add: lookup_fan_def sends_def)
  next
    case r: (Inr wf)
    obtain w f' where wf: "wf = (w, f')" by (cases wf)
    have w: "sends w = []"
      using r wf sends_first_fan [of f fans w f'] by (cases has_fan) (simp_all add: sends_def)
    show ?thesis
      using Inr r wf w by (simp add: lookup_fan_def sends_lookup_temp split: sum.split)
  qed
qed

lemma sends_lookup_code: "sends (fst (lookup_code self)) = []"
  by (simp add: lookup_code_def Let_def sends_lookup_fan split: sum.split bool.split)
    (simp add: sends_def)

lemma send_command_fan_temp:
  "EasyIRClimate_send_command (self\<lparr>attr_fan_mode := f, attr_target_temperature := t\<rparr>) code
   = EasyIRClimate_send_command self code"
  by (simp add: EasyIRClimate_send_command_def split: sum.split)

lemma off_without_commands_raises:
  "attr_hvac_mode self = OFF \<Longrightarrow> map_of (device_data self) ''commands'' = None \<Longrightarrow>
   EasyIRClimate_async_send_ir self = ([], Some KeyError)"
  by (simp add: EasyIRClimate_async_send_ir_def)

lemma mode_key_simps:
  "HVAC_MODES_INV_MAP OFF = Some ''off''"
  "HVAC_MODES_INV_MAP COOL = Some ''cool''"
  "HVAC_MODES_INV_MAP HEAT = Some ''heat''"
  "HVAC_MODES_INV_MAP AUTO = Some ''auto''"
  "HVAC_MODES_INV_MAP DRY = Some ''dry''"
  "HVAC_MODES_INV_MAP FAN_ONLY = Some ''fan_only''"
  "HVAC_MODES_INV_MAP HEAT_COOL = None"
  by (simp_all add: HVAC_MODES_INV_MAP_def HVAC_MODES_MAP_def)

lemma py_str_24: "py_str 24 = ''24''"
  by (simp add: py_str_def digit_char_def)

section \<open>The climate resolver\<close>

text \<open>
  C1. The claim is that the climate resolver never raises, also for a mode whose fan
  mapping is empty. On the table \<open>{"commands": {"cool": {}}}\<close> with mode cool, fan auto
  and temperature 24 the mode is found, the fan is not, and the fallback reads the first
  of no keys: the run ends with IndexError and nothing logged.
\<close>

theorem empty_fan_mapping_raises:
  "EasyIRClimate_async_send_ir
     \<lparr>device_data = [(''commands'', JObj [(''cool'', JObj [])])],
      controller = Some ''remote.blaster'', attr_hvac_mode = COOL,
      attr_fan_mode = ''auto'', attr_target_temperature = 24\<rparr>
   = ([], Some IndexError)"
  by (simp add: EasyIRClimate_async_send_ir_def lookup_code_def lookup_fan_def
      climate_commands_def mode_key_simps first_fan_def)

text \<open>
  C2. When the mode is in the table with at least one fan entry, the requested fan is
  not among them, and the temperature key is under the first fan entry, the lookup warns,
  takes the first fan entry and finds the code stored under (mode, first fan, temperature);
  the method hands exactly that code to the transmitter (when it is truthy).
\<close>

theorem fan_fallback_resolves:
  assumes "attr_hvac_mode self \<noteq> OFF"
    and "HVAC_MODES_INV_MAP (attr_hvac_mode self) = Some mode"
    and "climate_commands self = JObj commands"
    and "map_of commands mode = Some (JObj ((f, JObj temps) # fans))"
    and "map_of ((f, JObj temps) # fans) (attr_fan_mode self) = None"
    and "map_of temps (py_str (attr_target_temperature self)) = Some code"
  shows "lookup_code self
           = ([Log WARNING (msg_fan_missing (attr_fan_mode self) f)], Inr (Some code))
         \<and> EasyIRClimate_async_send_ir self =
           (if py_truthy code
            then (case EasyIRClimate_send_command self code of
                    (evs, r) \<Rightarrow> (Log WARNING (msg_fan_missing (attr_fan_mode self) f) # evs, r))
            else ([Log WARNING (msg_fan_missing (attr_fan_mode self) f)], None))"
  using assms
  by (simp add: lookup_code_def lookup_fan_def lookup_temp_def EasyIRClimate_async_send_ir_def
      first_fan_def split: prod.splits if_splits)

theorem fan_fallback_resolves_witness:
  "EasyIRClimate_async_send_ir
     \<lparr>device_data =
        [(''commands'', JObj [(''cool'', JObj [(''auto'', JObj [(''24'', JStr ''CCDD'')])])])],
      controller = Some ''remote.blaster'', attr_hvac_mode = COOL,
      attr_fan_mode = ''low'', attr_target_temperature = 24\<rparr>
   = ([Log WARNING (msg_fan_missing ''low'' ''auto''),
       Log INFO (msg_sending 1 (Some ''remote.blaster'')),
       ServiceCall ''remote'' ''send_command'' (Some ''remote.blaster'') [JStr ''b64:CCDD'']],
      None)"
  using fan_fallback_resolves
    [of "\<lparr>device_data =
           [(''commands'', JObj [(''cool'', JObj [(''auto'', JObj [(''24'', JStr ''CCDD'')])])])],
         controller = Some ''remote.blaster'', attr_hvac_mode = COOL,
         attr_fan_mode = ''low'', attr_target_temperature = 24\<rparr>"
        "''cool''" "[(''cool'', JObj [(''auto'', JObj [(''24'', JStr ''CCDD'')])])]"
        "''auto''" "[(''24'', JStr ''CCDD'')]" "[]" "JStr ''CCDD''"]
  by (simp add: mode_key_simps climate_commands_def py_str_24
      EasyIRClimate_send_command_def code_list_def final_commands_def)

text \<open>
  C3. When mode, fan and temperature key are all in the table, the lookup logs nothing
  and finds the value stored at \<open>commands[mode][fan][str(int(value))]\<close>; the method hands
  exactly that value to the transmitter (when it is truthy).
\<close>

theorem present_triple_resolves:
  assumes "attr_hvac_mode self \<noteq> OFF"
    and "HVAC_MODES_INV_MAP (attr_hvac_mode self) = Some mode"
    and "climate_commands self = JObj commands"
    and "map_of commands mode = Some (JObj fans)"
    and "map_of fans (attr_fan_mode self) = Some (JObj temps)"
    and "map_of temps (py_str (attr_target_temperature self)) = Some code"
  shows "lookup_code self = ([], Inr (Some code))
         \<and> EasyIRClimate_async_send_ir self =
           (if py_truthy code then EasyIRClimate_send_command self code else ([], None))"
  using assms
  by (simp add: lookup_code_def lookup_fan_def lookup_temp_def EasyIRClimate_async_send_ir_def
      split: prod.splits)

theorem present_triple_resolves_witness:
  "lookup_code
     \<lparr>device_data =
        [(''commands'', JObj [(''cool'', JObj [(''auto'', JObj [(''24'', JStr ''CCDD'')])])])],
      controller = Some ''remote.blaster'', attr_hvac_mode = COOL,
      attr_fan_mode = ''auto'', attr_target_temperature = 24\<rparr>
   = ([], Inr (Some (JStr ''CCDD'')))
   \<and> EasyIRClimate_async_send_ir
     \<lparr>device_data =
        [(''commands'', JObj [(''cool'', JObj [(''auto'', JObj [(''24'', JStr ''CCDD'')])])])],
      controller = Some ''remote.blaster'', attr_hvac_mode = COOL,
      attr_fan_mode = ''auto'', attr_target_temperature = 24\<rparr>
   = ([Log INFO (msg_sending 1 (Some ''remote.blaster'')),
       ServiceCall ''remote'' ''send_command'' (Some ''remote.blaster'') [JStr ''b64:CCDD'']],
      None)"
  using present_triple_resolves
    [of "\<lparr>device_data =
           [(''commands'', JObj [(''cool'', JObj [(''auto'', JObj [(''24'', JStr ''CCDD'')])])])],
         controller = Some ''remote.blaster'', attr_hvac_mode = COOL,
         attr_fan_mode = ''auto'', attr_target_temperature = 24\<rparr>"
        "''cool''" "[(''cool'', JObj [(''auto'', JObj [(''24'', JStr ''CCDD'')])])]"
        "[(''auto'', JObj [(''24'', JStr ''CCDD'')])]" "[(''24'', JStr ''CCDD'')]" "JStr ''CCDD''"]
  by (simp add: mode_key_simps climate_commands_def py_str_24
      EasyIRClimate_send_command_def code_list_def final_commands_def)


text \<open>
  C4. With the mode off, the method reads the top-level \<open>off\<close> entry of the commands
  mapping and nothing else. An entry that is truthy and has a length (a non-empty string,
  list or mapping) is logged with its length and handed to the transmitter as it is. On
  every device file where there is no such entry, because the key is absent or its value
  is falsy, nothing is transmitted; where the commands mapping is there, the run is the
  not-found report at error level. The fan and the temperature play no part.
\<close>

theorem off_request:
  assumes "attr_hvac_mode self = OFF"
  shows "(map_of (device_data self) ''commands'' = Some (JObj commands)
            \<and> map_of commands ''off'' = Some command \<and> py_truthy command
            \<and> py_len command = Inr n \<longrightarrow>
          EasyIRClimate_async_send_ir self =
            (case EasyIRClimate_send_command self command of
               (evs, r) \<Rightarrow> (Log DEBUG (msg_found_off n) # evs, r)))
       \<and> ((\<forall>cs. map_of (device_data self) ''commands'' = Some (JObj cs) \<longrightarrow>
                  (case map_of cs ''off'' of None \<Rightarrow> True | Some v \<Rightarrow> \<not> py_truthy v)) \<longrightarrow>
          sends (fst (EasyIRClimate_async_send_ir self)) = [])
       \<and> (map_of (device_data self) ''commands'' = Some (JObj commands)
            \<and> (case map_of commands ''off'' of None \<Rightarrow> True | Some v \<Rightarrow> \<not> py_truthy v) \<longrightarrow>
          EasyIRClimate_async_send_ir self = ([Log ERROR msg_off_missing], None))
       \<and> EasyIRClimate_async_send_ir
            (self\<lparr>attr_fan_mode := f, attr_target_temperature := t\<rparr>)
          = EasyIRClimate_async_send_ir self"
proof (intro conjI impI)
  assume "map_of (device_data self) ''commands'' = Some (JObj commands)
            \<and> map_of commands ''off'' = Some command \<and> py_truthy command
            \<and> py_len command = Inr n"
  with assms show "EasyIRClimate_async_send_ir self =
            (case EasyIRClimate_send_command self command of
               (evs, r) \<Rightarrow> (Log DEBUG (msg_found_off n) # evs, r))"
    by (simp add: EasyIRClimate_async_send_ir_def)
next
  assume none: "\<forall>cs. map_of (device_data self) ''commands'' = Some (JObj cs) \<longrightarrow>
                  (case map_of cs ''off'' of None \<Rightarrow> True | Some v \<Rightarrow> \<not> py_truthy v)"
  show "sends (fst (EasyIRClimate_async_send_ir self)) = []"
  proof (cases "map_of (device_data self) ''commands''")
    case None
    with assms show ?thesis by (simp add: EasyIRClimate_async_send_ir_def sends_def)
  next
    case (Some c)
    show ?thesis
    proof (cases c)
      case (JObj cs)
      with Some none
      have "case map_of cs ''off'' of None \<Rightarrow> True | Some v \<Rightarrow> \<not> py_truthy v" by simp
      with assms Some JObj show ?thesis
        by (simp add: EasyIRClimate_async_send_ir_def sends_def split: option.splits)
    qed (use assms Some in \<open>simp_all add: EasyIRClimate_async_send_ir_def sends_def\<close>)
  qed
next
  assume "map_of (device_data self) ''commands'' = Some (JObj commands)
            \<and> (case map_of commands ''off'' of None \<Rightarrow> True | Some v \<Rightarrow> \<not> py_truthy v)"
  with assms show "EasyIRClimate_async_send_ir self = ([Log ERROR msg_off_missing], None)"
    by (simp add: EasyIRClimate_async_send_ir_def split: option.splits)
next
  from assms show "EasyIRClimate_async_send_ir
            (self\<lparr>attr_fan_mode := f, attr_target_temperature := t\<rparr>)
          = EasyIRClimate_async_send_ir self"
    by (simp add: EasyIRClimate_async_send_ir_def send_command_fan_temp
        split: option.split sum.split)
qed

theorem off_request_witness:
  "EasyIRClimate_async_send_ir
     \<lparr>device_data = [(''commands'', JObj [(''off'', JStr ''AABB'')])],
      controller = Some ''remote.blaster'', attr_hvac_mode = OFF,
      attr_fan_mode = ''auto'', attr_target_temperature = 24\<rparr>
   = ([Log DEBUG (msg_found_off 4),
       Log INFO (msg_sending 1 (Some ''remote.blaster'')),
       ServiceCall ''remote'' ''send_command'' (Some ''remote.blaster'') [JStr ''b64:AABB'']],
      None)
   \<and> EasyIRClimate_async_send_ir
     \<lparr>device_data = [(''commands'', JObj [(''cool'', JObj [])])],
      controller = Some ''remote.blaster'', attr_hvac_mode = OFF,
      attr_fan_mode = ''auto'', attr_target_temperature = 24\<rparr>
   = ([Log ERROR msg_off_missing], None)
   \<and> EasyIRClimate_async_send_ir
     \<lparr>device_data = [(''commands'', JObj [(''off'', JArr [])])],
      controller = Some ''remote.blaster'', attr_hvac_mode = OFF,
      attr_fan_mode = ''auto'', attr_target_temperature = 24\<rparr>
   = ([Log ERROR msg_off_missing], None)
   \<and> sends (fst (EasyIRClimate_async_send_ir
     \<lparr>device_data = [(''manufacturer'', JStr ''Acme'')],
      controller = Some ''remote.blaster'', attr_hvac_mode = OFF,
      attr_fan_mode = ''auto'', attr_target_temperature = 24\<rparr>)) = []"
  using off_request
    [of "\<lparr>device_data = [(''commands'', JObj [(''off'', JStr ''AABB'')])],
         controller = Some ''remote.blaster'', attr_hvac_mode = OFF,
         attr_fan_mode = ''auto'', attr_target_temperature = 24\<rparr>"
        "[(''off'', JStr ''AABB'')]" "JStr ''AABB''" 4]
    off_request
    [of "\<lparr>device_data = [(''commands'', JObj [(''cool'', JObj [])])],
         controller = Some ''remote.blaster'', attr_hvac_mode = OFF,
         attr_fan_mode = ''auto'', attr_target_temperature = 24\<rparr>"
        "[(''cool'', JObj [])]"]
    off_request
    [of "\<lparr>device_data = [(''commands'', JObj [(''off'', JArr [])])],
         controller = Some ''remote.blaster'', attr_hvac_mode = OFF,
         attr_fan_mode = ''auto'', attr_target_temperature = 24\<rparr>"
        "[(''off'', JArr [])]"]
    off_request
    [of "\<lparr>device_data = [(''manufacturer'', JStr ''Acme'')],
         controller = Some ''remote.blaster'', attr_hvac_mode = OFF,
         attr_fan_mode = ''auto'', attr_target_temperature = 24\<rparr>"]
  by (simp add: EasyIRClimate_send_command_def code_list_def final_commands_def)

text \<open>
  The claim as first stated, that the \<open>off\<close> entry is returned whenever the key is
  present, fails on the table \<open>{"commands": {"off": ""}}\<close>: the key is present, and the
  run is the not-found report with no outbound call.
\<close>

theorem off_present_but_empty_not_sent:
  "map_of [(''off'', JStr [])] ''off'' = Some (JStr [])
   \<and> EasyIRClimate_async_send_ir
     \<lparr>device_data = [(''commands'', JObj [(''off'', JStr [])])],
      controller = Some ''remote.blaster'', attr_hvac_mode = OFF,
      attr_fan_mode = ''auto'', attr_target_temperature = 24\<rparr>
   = ([Log ERROR msg_off_missing], None)
   \<and> sends (fst (EasyIRClimate_async_send_ir
     \<lparr>device_data = [(''commands'', JObj [(''off'', JStr [])])],
      controller = Some ''remote.blaster'', attr_hvac_mode = OFF,
      attr_fan_mode = ''auto'', attr_target_temperature = 24\<rparr>)) = []"
  by (simp add: EasyIRClimate_async_send_ir_def sends_def)

text \<open>
  C5. With a mode other than off whose key is not in the commands mapping (also a mode
  that has no key at all, and a device file without \<open>commands\<close>), the method logs the
  missing mode at error level and returns: no outbound call is made.
\<close>

theorem missing_mode_not_found:
  assumes "attr_hvac_mode self \<noteq> OFF"
    and "climate_commands self = JObj commands"
    and "case HVAC_MODES_INV_MAP (attr_hvac_mode self) of
           None \<Rightarrow> True | Some mode \<Rightarrow> map_of commands mode = None"
  shows "EasyIRClimate_async_send_ir self =
           ([Log ERROR (msg_mode_missing (HVAC_MODES_INV_MAP (attr_hvac_mode self)))], None)
         \<and> sends (fst (EasyIRClimate_async_send_ir self)) = []"
  using assms
  by (cases "HVAC_MODES_INV_MAP (attr_hvac_mode self)")
     (simp_all add: EasyIRClimate_async_send_ir_def lookup_code_def sends_def)

theorem missing_mode_not_found_witness:
  "EasyIRClimate_async_send_ir
     \<lparr>device_data =
        [(''commands'', JObj [(''cool'', JObj [(''auto'', JObj [(''24'', JStr ''EEFF'')])])])],
      controller = Some ''remote.blaster'', attr_hvac_mode = HEAT,
      attr_fan_mode = ''auto'', attr_target_temperature = 24\<rparr>
   = ([Log ERROR (msg_mode_missing (Some ''heat''))], None)"
  using missing_mode_not_found
    [of "\<lparr>device_data =
           [(''commands'', JObj [(''cool'', JObj [(''auto'', JObj [(''24'', JStr ''EEFF'')])])])],
         controller = Some ''remote.blaster'', attr_hvac_mode = HEAT,
         attr_fan_mode = ''auto'', attr_target_temperature = 24\<rparr>"
        "[(''cool'', JObj [(''auto'', JObj [(''24'', JStr ''EEFF'')])])]"]
  by (simp add: mode_key_simps climate_commands_def)

section \<open>The transmitters\<close>

text \<open>
  C6. For every string \<open>s\<close>, each transmitter does the same on the code \<open>s\<close> and on the
  one-element list \<open>[s]\<close>: the whole run is equal, and the one outbound call carries the
  same normalised payload.
\<close>

theorem string_and_singleton_same_payload:
  "EasyIRClimate_send_command c (JStr s) = EasyIRClimate_send_command c (JArr [JStr s])
   \<and> send_raw_code p (JStr s) = send_raw_code p (JArr [JStr s])
   \<and> sends (fst (EasyIRClimate_send_command c (JArr [JStr s])))
       = [ServiceCall ''remote'' ''send_command'' (controller c) (final_commands [JStr s])]
   \<and> sends (fst (send_raw_code p (JArr [JStr s])))
       = [ServiceCall ''remote'' ''send_command'' (mp_controller p) (final_commands [JStr s])]"
  by (simp add: EasyIRClimate_send_command_def send_raw_code_def code_list_def sends_def)

theorem string_and_singleton_same_payload_witness:
  "EasyIRClimate_send_command
     \<lparr>device_data = [], controller = Some ''remote.blaster'', attr_hvac_mode = OFF,
      attr_fan_mode = ''auto'', attr_target_temperature = 24\<rparr> (JStr ''AABB'')
   = EasyIRClimate_send_command
     \<lparr>device_data = [], controller = Some ''remote.blaster'', attr_hvac_mode = OFF,
      attr_fan_mode = ''auto'', attr_target_temperature = 24\<rparr> (JArr [JStr ''AABB''])"
  using string_and_singleton_same_payload
    [of "\<lparr>device_data = [], controller = Some ''remote.blaster'', attr_hvac_mode = OFF,
         attr_fan_mode = ''auto'', attr_target_temperature = 24\<rparr>" "''AABB''"]
  by simp

text \<open>
  C7. The normalisation puts the prefix \<open>b64:\<close> in front of a string that does not start
  with it and leaves a string that starts with it as it is, at every position of the
  payload and in both transmitters: the payload keeps its length, each string in it is
  normalised on its own, and an element that is not a string is passed on. Applied to
  its own result the normalisation changes nothing.
\<close>

theorem prefix_applied_once:
  "final_commands [JStr s] = [JStr (if prefix ''b64:'' s then s else ''b64:'' @ s)]
   \<and> final_commands (final_commands code) = final_commands code
   \<and> sends (fst (EasyIRClimate_send_command c (JStr s)))
       = [ServiceCall ''remote'' ''send_command'' (controller c)
            [JStr (if prefix ''b64:'' s then s else ''b64:'' @ s)]]
   \<and> sends (fst (send_raw_code p (JStr s)))
       = [ServiceCall ''remote'' ''send_command'' (mp_controller p)
            [JStr (if prefix ''b64:'' s then s else ''b64:'' @ s)]]
   \<and> length (final_commands code) = length code
   \<and> (\<forall>i < length code.
         (\<forall>x. code ! i = JStr x \<longrightarrow>
              final_commands code ! i = JStr (if prefix ''b64:'' x then x else ''b64:'' @ x))
         \<and> ((\<forall>x. code ! i \<noteq> JStr x) \<longrightarrow> final_commands code ! i = code ! i))
   \<and> final_commands (map JStr ss)
       = map (\<lambda>x. JStr (if prefix ''b64:'' x then x else ''b64:'' @ x)) ss
   \<and> sends (fst (EasyIRClimate_send_command c (JArr (map JStr ss))))
       = [ServiceCall ''remote'' ''send_command'' (controller c)
            (map (\<lambda>x. JStr (if prefix ''b64:'' x then x else ''b64:'' @ x)) ss)]
   \<and> sends (fst (send_raw_code p (JArr (map JStr ss))))
       = [ServiceCall ''remote'' ''send_command'' (mp_controller p)
            (map (\<lambda>x. JStr (if prefix ''b64:'' x then x else ''b64:'' @ x)) ss)]"
proof -
  have single: "final_commands [JStr s] = [JStr (if prefix ''b64:'' s then s else ''b64:'' @ s)]"
    by (simp add: final_commands_def)
  have idem: "final_commands (final_commands code) = final_commands code"
    by (auto simp: final_commands_def split: json.splits)
  have len: "length (final_commands code) = length code"
    by (simp add: final_commands_def)
  have pointwise: "\<forall>i < length code.
         (\<forall>x. code ! i = JStr x \<longrightarrow>
              final_commands code ! i = JStr (if prefix ''b64:'' x then x else ''b64:'' @ x))
         \<and> ((\<forall>x. code ! i \<noteq> JStr x) \<longrightarrow> final_commands code ! i = code ! i)"
    by (auto simp: final_commands_def split: json.splits)
  have strings: "final_commands (map JStr ss)
       = map (\<lambda>x. JStr (if prefix ''b64:'' x then x else ''b64:'' @ x)) ss"
    by (simp add: final_commands_def)
  have calls: "sends (fst (EasyIRClimate_send_command c (JStr s)))
       = [ServiceCall ''remote'' ''send_command'' (controller c) (final_commands [JStr s])]
     \<and> sends (fst (send_raw_code p (JStr s)))
       = [ServiceCall ''remote'' ''send_command'' (mp_controller p) (final_commands [JStr s])]
     \<and> sends (fst (EasyIRClimate_send_command c (JArr (map JStr ss))))
       = [ServiceCall ''remote'' ''send_command'' (controller c) (final_commands (map JStr ss))]
     \<and> sends (fst (send_raw_code p (JArr (map JStr ss))))
       = [ServiceCall ''remote'' ''send_command'' (mp_controller p)
            (final_commands (map JStr ss))]"
    by (simp add: EasyIRClimate_send_command_def send_raw_code_def code_list_def sends_def)
  from single idem len pointwise strings calls show ?thesis by simp
qed

theorem prefix_applied_once_witness:
  "final_commands [JStr ''AABB''] = [JStr ''b64:AABB'']
   \<and> final_commands [JStr ''b64:AABB''] = [JStr ''b64:AABB'']
   \<and> final_commands [JStr ''AABB'', JStr ''CCDD'', JStr ''b64:EEFF'']
       = [JStr ''b64:AABB'', JStr ''b64:CCDD'', JStr ''b64:EEFF'']
   \<and> sends (fst (send_raw_code
        \<lparr>mp_device_data = [], mp_controller = Some ''remote.blaster'',
         attr_state = STATE_OFF, attr_source = None\<rparr>
        (JArr [JStr ''AABB'', JStr ''CCDD''])))
       = [ServiceCall ''remote'' ''send_command'' (Some ''remote.blaster'')
            [JStr ''b64:AABB'', JStr ''b64:CCDD'']]"
  using prefix_applied_once [of "''AABB''"] prefix_applied_once [of "''b64:AABB''"]
    prefix_applied_once [where ss = "[''AABB'', ''CCDD'', ''b64:EEFF'']"]
    prefix_applied_once [where ss = "[''AABB'', ''CCDD'']"
      and p = "\<lparr>mp_device_data = [], mp_controller = Some ''remote.blaster'',
         attr_state = STATE_OFF, attr_source = None\<rparr>"]
  by simp

section \<open>The media player lookup\<close>

text \<open>
  C8. For the action \<open>on\<close>, when the commands mapping has no \<open>on\<close> key (or a falsy value
  under it), the method looks up \<open>power\<close> and sends the code stored there; only when that
  one is falsy too does it warn and give up. A table with \<open>power\<close> alone resolves \<open>on\<close>.
\<close>

theorem on_retries_power:
  assumes "media_commands self = JObj commands"
    and "case map_of commands ''on'' of None \<Rightarrow> True | Some v \<Rightarrow> \<not> py_truthy v"
    and "map_of commands ''power'' = Some code"
  shows "EasyIRMediaPlayer_send_command self ''on'' =
           (if py_truthy code then send_raw_code self code
            else ([Log WARNING (msg_command_missing ''on'')], None))"
  using assms
  by (simp add: EasyIRMediaPlayer_send_command_def commands_get_def split: option.splits)

theorem on_retries_power_witness:
  "EasyIRMediaPlayer_send_command
     \<lparr>mp_device_data = [(''commands'', JObj [(''power'', JStr ''GGHH'')])],
      mp_controller = Some ''remote.blaster'', attr_state = STATE_OFF, attr_source = None\<rparr>
     ''on''
   = ([ServiceCall ''remote'' ''send_command'' (Some ''remote.blaster'') [JStr ''b64:GGHH'']],
      None)"
  using on_retries_power
    [of "\<lparr>mp_device_data = [(''commands'', JObj [(''power'', JStr ''GGHH'')])],
         mp_controller = Some ''remote.blaster'', attr_state = STATE_OFF,
         attr_source = None\<rparr>"
        "[(''power'', JStr ''GGHH'')]" "JStr ''GGHH''"]
  by (simp add: media_commands_def send_raw_code_def code_list_def final_commands_def)

section \<open>State after a request\<close>

text \<open>
  C9. No setter rolls its field back. The climate setters store the requested value
  before the lookup, so the field holds it whatever the lookup and the send do (a miss,
  a send, an exception). The media player stores the state after \<open>_send_command\<close> has
  returned, and a lookup that finds nothing returns (with a warning): whenever
  \<open>_send_command\<close> returns, and so whenever nothing truthy is stored for the action, the
  state is the requested one and it is published.
\<close>

theorem no_rollback:
  "attr_hvac_mode (fst (async_set_hvac_mode m c)) = m
   \<and> attr_target_temperature (fst (async_set_temperature (Some t) c)) = t
   \<and> attr_fan_mode (fst (async_set_fan_mode f c)) = f
   \<and> (snd (EasyIRMediaPlayer_send_command p ''on'') = None \<longrightarrow>
        attr_state (fst (async_turn_on p)) = STATE_ON)
   \<and> (snd (EasyIRMediaPlayer_send_command p ''off'') = None \<longrightarrow>
        attr_state (fst (async_turn_off p)) = STATE_OFF)
   \<and> (media_commands p = JObj commands
        \<and> (case map_of commands ''on'' of None \<Rightarrow> True | Some v \<Rightarrow> \<not> py_truthy v)
        \<and> (case map_of commands ''power'' of None \<Rightarrow> True | Some v \<Rightarrow> \<not> py_truthy v) \<longrightarrow>
        async_turn_on p =
          (p\<lparr>attr_state := STATE_ON\<rparr>,
           [Log WARNING (msg_command_missing ''on''), WriteHAState], None))
   \<and> (media_commands p = JObj commands
        \<and> (case map_of commands ''off'' of None \<Rightarrow> True | Some v \<Rightarrow> \<not> py_truthy v) \<longrightarrow>
        async_turn_off p =
          (p\<lparr>attr_state := STATE_OFF\<rparr>,
           [Log WARNING (msg_command_missing ''off''), WriteHAState], None))"
proof -
  have climate: "attr_hvac_mode (fst (async_set_hvac_mode m c)) = m
     \<and> attr_target_temperature (fst (async_set_temperature (Some t) c)) = t
     \<and> attr_fan_mode (fst (async_set_fan_mode f c)) = f"
    by (simp add: async_set_hvac_mode_def async_set_temperature_def async_set_fan_mode_def
        send_and_publish_def split: prod.split option.split)
  have returned: "(snd (EasyIRMediaPlayer_send_command p ''on'') = None \<longrightarrow>
        attr_state (fst (async_turn_on p)) = STATE_ON)
     \<and> (snd (EasyIRMediaPlayer_send_command p ''off'') = None \<longrightarrow>
        attr_state (fst (async_turn_off p)) = STATE_OFF)"
    by (simp add: async_turn_on_def async_turn_off_def split: prod.split option.split)
  have missed: "(media_commands p = JObj commands
        \<and> (case map_of commands ''on'' of None \<Rightarrow> True | Some v \<Rightarrow> \<not> py_truthy v)
        \<and> (case map_of commands ''power'' of None \<Rightarrow> True | Some v \<Rightarrow> \<not> py_truthy v) \<longrightarrow>
        async_turn_on p =
          (p\<lparr>attr_state := STATE_ON\<rparr>,
           [Log WARNING (msg_command_missing ''on''), WriteHAState], None))
     \<and> (media_commands p = JObj commands
        \<and> (case map_of commands ''off'' of None \<Rightarrow> True | Some v \<Rightarrow> \<not> py_truthy v) \<longrightarrow>
        async_turn_off p =
          (p\<lparr>attr_state := STATE_OFF\<rparr>,
           [Log WARNING (msg_command_missing ''off''), WriteHAState], None))"
    by (auto simp: async_turn_on_def async_turn_off_def EasyIRMediaPlayer_send_command_def
        commands_get_def split: option.splits)
  from climate returned missed show ?thesis by simp
qed

theorem no_rollback_witness:
  "attr_hvac_mode (fst (async_set_hvac_mode HEAT
     \<lparr>device_data =
        [(''commands'', JObj [(''cool'', JObj [(''auto'', JObj [(''24'', JStr ''EEFF'')])])])],
      controller = Some ''remote.blaster'', attr_hvac_mode = COOL,
      attr_fan_mode = ''auto'', attr_target_temperature = 24\<rparr>)) = HEAT
   \<and> snd (async_set_hvac_mode HEAT
     \<lparr>device_data =
        [(''commands'', JObj [(''cool'', JObj [(''auto'', JObj [(''24'', JStr ''EEFF'')])])])],
      controller = Some ''remote.blaster'', attr_hvac_mode = COOL,
      attr_fan_mode = ''auto'', attr_target_temperature = 24\<rparr>)
     = ([Log ERROR (msg_mode_missing (Some ''heat'')), WriteHAState], None)
   \<and> snd (EasyIRMediaPlayer_send_command
       \<lparr>mp_device_data = [(''commands'', JObj [(''mute'', JStr ''MMNN'')])],
        mp_controller = Some ''remote.blaster'', attr_state = STATE_OFF, attr_source = None\<rparr>
       ''on'') = None
   \<and> async_turn_on
       \<lparr>mp_device_data = [(''commands'', JObj [(''mute'', JStr ''MMNN'')])],
        mp_controller = Some ''remote.blaster'', attr_state = STATE_OFF, attr_source = None\<rparr>
     = (\<lparr>mp_device_data = [(''commands'', JObj [(''mute'', JStr ''MMNN'')])],
        mp_controller = Some ''remote.blaster'', attr_state = STATE_ON, attr_source = None\<rparr>,
        [Log WARNING (msg_command_missing ''on''), WriteHAState], None)"
proof -
  let ?c = "\<lparr>device_data =
        [(''commands'', JObj [(''cool'', JObj [(''auto'', JObj [(''24'', JStr ''EEFF'')])])])],
      controller = Some ''remote.blaster'', attr_hvac_mode = COOL,
      attr_fan_mode = ''auto'', attr_target_temperature = 24\<rparr>"
  let ?p = "\<lparr>mp_device_data = [(''commands'', JObj [(''mute'', JStr ''MMNN'')])],
        mp_controller = Some ''remote.blaster'', attr_state = STATE_OFF, attr_source = None\<rparr>"
  have miss: "snd (EasyIRMediaPlayer_send_command ?p ''on'') = None"
    by (simp add: EasyIRMediaPlayer_send_command_def commands_get_def media_commands_def)
  have run: "snd (async_set_hvac_mode HEAT ?c)
      = ([Log ERROR (msg_mode_missing (Some ''heat'')), WriteHAState], None)"
    by (simp add: async_set_hvac_mode_def send_and_publish_def EasyIRClimate_async_send_ir_def
        lookup_code_def climate_commands_def mode_key_simps)
  show ?thesis
    using no_rollback [where c = ?c and m = HEAT and p = ?p
        and commands = "[(''mute'', JStr ''MMNN'')]"] miss run
    by (simp add: media_commands_def)
qed

text \<open>
  C10. A falsy stored value is never transmitted. In the climate method: a falsy \<open>off\<close>
  entry is reported as not found; a falsy code found by the lookup (under the requested
  fan or the substituted one) ends the run after the lookup's own log records, none of
  which is an outbound call. In the media player: a falsy value under the key gives the
  warning only; for \<open>on\<close> the key whose value decides is \<open>power\<close> when \<open>on\<close> has nothing
  truthy, and a falsy or absent value there gives the warning only.
\<close>

theorem falsy_code_not_sent:
  "(attr_hvac_mode c = OFF \<and> map_of (device_data c) ''commands'' = Some (JObj commands)
      \<and> map_of commands ''off'' = Some command \<and> \<not> py_truthy command \<longrightarrow>
    EasyIRClimate_async_send_ir c = ([Log ERROR msg_off_missing], None))
   \<and> (attr_hvac_mode c \<noteq> OFF \<and> lookup_code c = (evs, Inr (Some code))
      \<and> \<not> py_truthy code \<longrightarrow>
    EasyIRClimate_async_send_ir c = (evs, None) \<and> sends evs = [])
   \<and> (media_commands p = JObj mcommands \<and> k \<noteq> ''on''
      \<and> map_of mcommands k = Some mcode \<and> \<not> py_truthy mcode \<longrightarrow>
    EasyIRMediaPlayer_send_command p k = ([Log WARNING (msg_command_missing k)], None))
   \<and> (media_commands p = JObj mcommands
      \<and> (case map_of mcommands ''on'' of None \<Rightarrow> True | Some v \<Rightarrow> \<not> py_truthy v)
      \<and> (case map_of mcommands ''power'' of None \<Rightarrow> True | Some v \<Rightarrow> \<not> py_truthy v) \<longrightarrow>
    EasyIRMediaPlayer_send_command p ''on''
      = ([Log WARNING (msg_command_missing ''on'')], None))"
proof (intro conjI impI)
  assume "attr_hvac_mode c = OFF \<and> map_of (device_data c) ''commands'' = Some (JObj commands)
      \<and> map_of commands ''off'' = Some command \<and> \<not> py_truthy command"
  then show "EasyIRClimate_async_send_ir c = ([Log ERROR msg_off_missing], None)"
    by (simp add: EasyIRClimate_async_send_ir_def)
next
  assume a: "attr_hvac_mode c \<noteq> OFF \<and> lookup_code c = (evs, Inr (Some code))
      \<and> \<not> py_truthy code"
  then show "EasyIRClimate_async_send_ir c = (evs, None)"
    by (simp add: EasyIRClimate_async_send_ir_def)
  from a show "sends evs = []"
    using sends_lookup_code [of c] by simp
next
  assume "media_commands p = JObj mcommands \<and> k \<noteq> ''on''
      \<and> map_of mcommands k = Some mcode \<and> \<not> py_truthy mcode"
  then show "EasyIRMediaPlayer_send_command p k = ([Log WARNING (msg_command_missing k)], None)"
    by (simp add: EasyIRMediaPlayer_send_command_def commands_get_def)
next
  assume "media_commands p = JObj mcommands
      \<and> (case map_of mcommands ''on'' of None \<Rightarrow> True | Some v \<Rightarrow> \<not> py_truthy v)
      \<and> (case map_of mcommands ''power'' of None \<Rightarrow> True | Some v \<Rightarrow> \<not> py_truthy v)"
  then show "EasyIRMediaPlayer_send_command p ''on''
      = ([Log WARNING (msg_command_missing ''on'')], None)"
    by (auto simp: EasyIRMediaPlayer_send_command_def commands_get_def split: option.splits)
qed

theorem falsy_code_not_sent_witness:
  "EasyIRClimate_async_send_ir
     \<lparr>device_data = [(''commands'', JObj [(''off'', JStr [])])],
      controller = Some ''remote.blaster'', attr_hvac_mode = OFF,
      attr_fan_mode = ''auto'', attr_target_temperature = 24\<rparr>
   = ([Log ERROR msg_off_missing], None)
   \<and> EasyIRClimate_async_send_ir
     \<lparr>device_data =
        [(''commands'', JObj [(''cool'', JObj [(''auto'', JObj [(''24'', JArr [])])])])],
      controller = Some ''remote.blaster'', attr_hvac_mode = COOL,
      attr_fan_mode = ''auto'', attr_target_temperature = 24\<rparr>
   = ([], None)
   \<and> EasyIRMediaPlayer_send_command
     \<lparr>mp_device_data = [(''commands'', JObj [(''mute'', JNull)])],
      mp_controller = Some ''remote.blaster'', attr_state = STATE_OFF, attr_source = None\<rparr>
     ''mute''
   = ([Log WARNING (msg_command_missing ''mute'')], None)
   \<and> EasyIRMediaPlayer_send_command
     \<lparr>mp_device_data = [(''commands'', JObj [(''on'', JStr []), (''power'', JArr [])])],
      mp_controller = Some ''remote.blaster'', attr_state = STATE_OFF, attr_source = None\<rparr>
     ''on''
   = ([Log WARNING (msg_command_missing ''on'')], None)"
proof -
  let ?c = "\<lparr>device_data =
        [(''commands'', JObj [(''cool'', JObj [(''auto'', JObj [(''24'', JArr [])])])])],
      controller = Some ''remote.blaster'', attr_hvac_mode = COOL,
      attr_fan_mode = ''auto'', attr_target_temperature = 24\<rparr>"
  have found: "lookup_code ?c = ([], Inr (Some (JArr [])))"
    by (simp add: lookup_code_def lookup_fan_def lookup_temp_def climate_commands_def
        mode_key_simps py_str_24)
  show ?thesis
    using falsy_code_not_sent
      [where c = "\<lparr>device_data = [(''commands'', JObj [(''off'', JStr [])])],
           controller = Some ''remote.blaster'', attr_hvac_mode = OFF,
           attr_fan_mode = ''auto'', attr_target_temperature = 24\<rparr>"
         and commands = "[(''off'', JStr [])]" and command = "JStr []"
         and p = "\<lparr>mp_device_data = [(''commands'', JObj [(''mute'', JNull)])],
           mp_controller = Some ''remote.blaster'', attr_state = STATE_OFF,
           attr_source = None\<rparr>"
         and mcommands = "[(''mute'', JNull)]" and k = "''mute''" and mcode = JNull]
      falsy_code_not_sent [where c = ?c and evs = "[]" and code = "JArr []"] found
      falsy_code_not_sent
      [where p = "\<lparr>mp_device_data =
             [(''commands'', JObj [(''on'', JStr []), (''power'', JArr [])])],
           mp_controller = Some ''remote.blaster'', attr_state = STATE_OFF,
           attr_source = None\<rparr>"
         and mcommands = "[(''on'', JStr []), (''power'', JArr [])]"]
    by (simp add: media_commands_def)
qed

end
